theory Spec2Isabelle
  imports Complex_Main "HOL-Library.Word" "HOL-Library.Sublist" "HOL-Library.AList"
begin

section \<open>JavaScript strings and values\<close>

text \<open>
  A JavaScript string is a sequence of 16-bit UTF-16 code units. \<open>js\<close> embeds a (Latin-1)
  string literal of the source.
\<close>

type_synonym jsstring = "16 word list"

definition js :: "string \<Rightarrow> jsstring" where
  "js s = map (\<lambda>c. of_nat (of_char c)) s"

text \<open>
  The arguments that the module documents as strings (\<open>filename\<close>, \<open>title\<close>, the serialized
  markup) may also be absent: \<open>undefined\<close> or \<open>null\<close>.
\<close>

datatype jstext = Undefined | Null | Str jsstring

text \<open>
  Numbers. The numbers the module computes with are the result of \<open>parseInt\<close> and the
  \<open>offsetWidth\<close> of an element: a double whose value is an integer (\<open>Num\<close>), an infinity
  (which \<open>parseInt\<close> returns for a long run of digits), \<open>NaN\<close>, or an argument that was not
  passed.
\<close>

datatype jsnumber = NoNumber | NaN | PosInfinity | NegInfinity | Num int

text \<open>\<open>ToBoolean\<close>, as the \<open>!\<close> and \<open>||\<close> of the source apply it.\<close>

fun truthy :: "jstext \<Rightarrow> bool" where
  "truthy Undefined = False"
| "truthy Null = False"
| "truthy (Str s) = (s \<noteq> [])"

fun truthy_number :: "jsnumber \<Rightarrow> bool" where
  "truthy_number NoNumber = False"
| "truthy_number NaN = False"
| "truthy_number PosInfinity = True"
| "truthy_number NegInfinity = True"
| "truthy_number (Num n) = (n \<noteq> 0)"

text \<open>\<open>ToString\<close>, as template literals and DOM string arguments apply it.\<close>

fun to_string :: "jstext \<Rightarrow> jsstring" where
  "to_string Undefined = js ''undefined''"
| "to_string Null = js ''null''"
| "to_string (Str s) = s"

fun digits :: "nat \<Rightarrow> jsstring" where
  "digits n = (if n < 10 then [48 + of_nat n] else digits (n div 10) @ [48 + of_nat (n mod 10)])"

declare digits.simps [simp del]

text \<open>
  \<open>half_to_string k\<close> is the text that \<open>Number.prototype.toString\<close> gives for the number
  \<open>k / 2\<close> when \<open>k\<close> is an integer of magnitude below \<open>2 ^ 53\<close>: such a number is a double,
  and its text is the sign, the digits of the integer part and, for an odd \<open>k\<close>, \<open>.5\<close>. It
  is used in that range only (see \<open>title_x\<close>).
\<close>

definition half_to_string :: "int \<Rightarrow> jsstring" where
  "half_to_string k =
     (if k < 0 then js ''-'' else []) @ digits (nat \<bar>k\<bar> div 2) @ (if odd k then js ''.5'' else [])"

datatype error = InvalidCharacterError | TypeError | NotFoundError

section \<open>String.prototype.replace\<close>

text \<open>
  \<open>GetSubstitution\<close>: the replacement text of \<open>replace\<close> is not taken literally. \<open>$$\<close> stands
  for a dollar sign, \<open>$&\<close> for the matched text, \<open>$`\<close> for the text before the match and
  \<open>$'\<close> for the text after it. None of the module's patterns has a capture group, so \<open>$1\<close>
  and the like stay as they are.
\<close>

fun GetSubstitution :: "jsstring \<Rightarrow> jsstring \<Rightarrow> jsstring \<Rightarrow> jsstring \<Rightarrow> jsstring" where
  "GetSubstitution matched preceding following [] = []"
| "GetSubstitution matched preceding following [c] = [c]"
| "GetSubstitution matched preceding following (c # d # r) =
     (if c = 36 then
        (if d = 36 then 36 # GetSubstitution matched preceding following r
         else if d = 38 then matched @ GetSubstitution matched preceding following r
         else if d = 96 then preceding @ GetSubstitution matched preceding following r
         else if d = 39 then following @ GetSubstitution matched preceding following r
         else c # GetSubstitution matched preceding following (d # r))
      else c # GetSubstitution matched preceding following (d # r))"

text \<open>
  A pattern is given by its matcher: the length of its match at the start of the text, if
  it matches there. \<open>search\<close> tries every start position from the left, as the regular
  expression engine and \<open>indexOf\<close> do.
\<close>

type_synonym matcher = "jsstring \<Rightarrow> nat option"

fun search :: "matcher \<Rightarrow> jsstring \<Rightarrow> (nat \<times> nat) option" where
  "search m [] = (case m [] of Some n \<Rightarrow> Some (0, n) | None \<Rightarrow> None)"
| "search m (c # cs) =
     (case m (c # cs) of
        Some n \<Rightarrow> Some (0, n)
      | None \<Rightarrow> (case search m cs of Some (i, n) \<Rightarrow> Some (Suc i, n) | None \<Rightarrow> None))"

definition replace :: "matcher \<Rightarrow> jsstring \<Rightarrow> jsstring \<Rightarrow> jsstring" where
  "replace m replacement s =
     (case search m s of
        None \<Rightarrow> s
      | Some (i, n) \<Rightarrow>
          take i s
          @ GetSubstitution (take n (drop i s)) (take i s) (drop (i + n) s) replacement
          @ drop (i + n) s)"

text \<open>A string pattern such as \<open>'>'\<close>, and a regular expression of literal characters such as \<open>/<g/\<close>.\<close>

definition literal :: "jsstring \<Rightarrow> matcher" where
  "literal p s = (if prefix p s then Some (length p) else None)"

text \<open>
  The regular expression \<open>/url.*&quot;\)/\<close>. The dot matches any code unit but a line
  terminator; the star is greedy, so the engine first lets it take the next code unit and
  only when the rest cannot match tries \<open>&quot;)\<close> at the current position.
\<close>

definition line_terminator :: "16 word \<Rightarrow> bool" where
  "line_terminator c = (c = 0x0A \<or> c = 0x0D \<or> c = 0x2028 \<or> c = 0x2029)"

fun dot_star_then :: "jsstring \<Rightarrow> jsstring \<Rightarrow> nat option" where
  "dot_star_then p [] = (if p = [] then Some 0 else None)"
| "dot_star_then p (c # cs) =
     (case (if line_terminator c then None else dot_star_then p cs) of
        Some n \<Rightarrow> Some (Suc n)
      | None \<Rightarrow> (if prefix p (c # cs) then Some (length p) else None))"

definition url_regex :: matcher where
  "url_regex s =
     (if prefix (js ''url'') s
      then (case dot_star_then (js ''&quot;)'') (drop 3 s) of Some n \<Rightarrow> Some (3 + n) | None \<Rightarrow> None)
      else None)"

section \<open>The module's configuration\<close>

definition styleClass :: jsstring where
  "styleClass = js ''britechartStyle''"

definition defaultFilename :: jsstring where
  "defaultFilename = js ''britechart.png''"

definition chartBackground :: jsstring where
  "chartBackground = js ''white''"

definition imageSourceBase :: jsstring where
  "imageSourceBase = js ''data:image/svg+xml;base64,''"

definition styleBackgroundString :: jsstring where
  "styleBackgroundString = js ''<style>svg{background:'' @ chartBackground @ js '';}</style>''"

section \<open>The pure string transforms\<close>

definition addBackground :: "jsstring \<Rightarrow> jsstring" where
  "addBackground html = replace (literal (js ''>'')) (js ''>'' @ styleBackgroundString) html"

definition formatHtmlByBrowser_replacement :: "jsstring \<Rightarrow> jsstring" where
  "formatHtmlByBrowser_replacement gradient_id = js ''url(&quot;#'' @ gradient_id @ js ''&quot;);''"

section \<open>The encoder\<close>

text \<open>
  \<open>window.btoa\<close>, as the HTML standard defines it: the call throws an
  \<open>InvalidCharacterError\<close> when a code unit of the text is above \<open>0xFF\<close>, and otherwise
  returns the base64 text (RFC 4648, with padding) of the bytes. The fallback of the
  module, \<open>encode\<close> of the package \<open>base-64\<close>, does the same.
\<close>

definition base64_table :: jsstring where
  "base64_table = js ''ABCDEFGHIJKLMNOPQRSTUVWXYZabcdefghijklmnopqrstuvwxyz0123456789+/''"

definition base64_char :: "nat \<Rightarrow> 16 word" where
  "base64_char n = base64_table ! (n mod 64)"

fun base64_encode :: "nat list \<Rightarrow> jsstring" where
  "base64_encode [] = []"
| "base64_encode [a] =
     [base64_char (a div 4), base64_char ((a mod 4) * 16), 61, 61]"
| "base64_encode [a, b] =
     [base64_char (a div 4), base64_char ((a mod 4) * 16 + b div 16),
      base64_char ((b mod 16) * 4), 61]"
| "base64_encode (a # b # c # r) =
     [base64_char (a div 4), base64_char ((a mod 4) * 16 + b div 16),
      base64_char ((b mod 16) * 4 + c div 64), base64_char (c mod 64)] @ base64_encode r"

definition btoa :: "jsstring \<Rightarrow> error + jsstring" where
  "btoa s =
     (if list_ex (\<lambda>c. 0xFF < c) s then Inl InvalidCharacterError
      else Inr (base64_encode (map unat s)))"

text \<open>
  The reference decoder of RFC 4648, against which the encoder is checked: four
  characters of the table give three bytes, and a final group may be padded with one or
  two \<open>=\<close>.
\<close>

fun index_of :: "'a \<Rightarrow> 'a list \<Rightarrow> nat option" where
  "index_of x [] = None"
| "index_of x (y # ys) =
     (if x = y then Some 0 else (case index_of x ys of Some i \<Rightarrow> Some (Suc i) | None \<Rightarrow> None))"

definition base64_value :: "16 word \<Rightarrow> nat option" where
  "base64_value c = index_of c base64_table"

fun base64_decode :: "jsstring \<Rightarrow> jsstring option" where
  "base64_decode [] = Some []"
| "base64_decode (x1 # x2 # x3 # x4 # r) =
     (case (base64_value x1, base64_value x2) of
        (Some s1, Some s2) \<Rightarrow>
          (if r = [] \<and> x3 = 61 \<and> x4 = 61 then Some [of_nat (s1 * 4 + s2 div 16)]
           else (case base64_value x3 of
             Some s3 \<Rightarrow>
               (if r = [] \<and> x4 = 61
                then Some [of_nat (s1 * 4 + s2 div 16), of_nat ((s2 mod 16) * 16 + s3 div 4)]
                else (case (base64_value x4, base64_decode r) of
                  (Some s4, Some rest) \<Rightarrow>
                    Some ([of_nat (s1 * 4 + s2 div 16), of_nat ((s2 mod 16) * 16 + s3 div 4),
                           of_nat ((s3 mod 4) * 64 + s4)] @ rest)
                | _ \<Rightarrow> None))
           | None \<Rightarrow> None))
      | _ \<Rightarrow> None)"
| "base64_decode _ = None"

section \<open>The document and the effects of the module\<close>

text \<open>
  An element of the document has an identity, a tag, its attributes (the properties
  \<open>href\<close>, \<open>download\<close> and \<open>id\<close> reflect attributes) and the markup assigned to it.
  The document is the list of the children of \<open>document.body\<close>, the only place where the
  module attaches and detaches elements; what lies below these children is not modelled.
\<close>

record dom_node =
  ident :: nat
  tag :: jsstring
  attrs :: "(jsstring \<times> jsstring) list"
  content :: jsstring

record canvas =
  canvas_ident :: nat
  canvas_width :: int
  canvas_height :: int

record image =
  image_ident :: nat
  src :: jsstring

text \<open>
  What a call does beyond its result is recorded in order: the objects it creates, the
  changes of the children of \<open>document.body\<close>, the activation of a link, and what it
  assigns to objects that outlive the call.
\<close>

datatype event =
    ImageCreated nat
  | SourceAssigned nat jsstring
  | ElementCreated jsstring nat
  | OnloadBound nat canvas jstext
  | AttributesWritten "(jsstring \<times> jsstring) list"
  | ChildAppended nat
  | ChildRemoved nat
  | LinkClicked dom_node
  | DefaultPrevented
  | ImageDrawn nat nat

record world =
  next_ident :: nat
  body :: "dom_node list"
  trace :: "event list"

text \<open>Every element of the document was created before: its identity is below the next one.\<close>

definition wf_world :: "world \<Rightarrow> bool" where
  "wf_world w = list_all (\<lambda>m. ident m < next_ident w) (body w)"

text \<open>The d3 selection of the chart: the attributes of its node, and its children.\<close>

record svg =
  svg_attrs :: "(jsstring \<times> jsstring) list"
  svg_children :: jsstring

text \<open>
  What the module takes from its surroundings: the browser's name (\<open>bowser.name\<close>), the
  constant \<open>lineGradientId\<close> of \<open>constants.js\<close>, the grey colour schema of \<open>colors.js\<close>,
  the serializer of \<open>serializeWithStyles.js\<close>, and of the platform \<open>parseInt\<close>, the
  layout's \<open>offsetWidth\<close> of an element and \<open>toDataURL\<close> of a canvas. The platform's
  functions are taken to return: the source has no handler for a failure of theirs.
  \<open>double_text a b\<close> is the text of \<open>(a / 2) - (b / 2)\<close> as the platform's double arithmetic
  and \<open>toString\<close> give it; the model asks for it only where the doubles round, for an
  integer of magnitude \<open>2 ^ 52\<close> or more.
\<close>

record env =
  bowser_name :: jsstring
  lineGradientId :: jsstring
  colors :: "jsstring list"
  serializer :: "svg \<Rightarrow> jsstring"
  parseInt :: "jstext \<Rightarrow> jsnumber"
  double_text :: "int \<Rightarrow> int \<Rightarrow> jsstring"
  offsetWidth :: "dom_node \<Rightarrow> int"
  toDataURL :: "canvas \<Rightarrow> jsstring \<Rightarrow> jsstring"

definition formatHtmlByBrowser :: "env \<Rightarrow> jsstring \<Rightarrow> jsstring" where
  "formatHtmlByBrowser env html =
     (if bowser_name env = js ''Firefox''
      then replace url_regex (formatHtmlByBrowser_replacement (lineGradientId env)) html
      else html)"

definition createElement :: "jsstring \<Rightarrow> world \<Rightarrow> dom_node \<times> world" where
  "createElement t w =
     (\<lparr>ident = next_ident w, tag = t, attrs = [], content = []\<rparr>,
      w\<lparr>next_ident := Suc (next_ident w),
        trace := trace w @ [ElementCreated t (next_ident w)]\<rparr>)"

definition attached :: "dom_node \<Rightarrow> world \<Rightarrow> bool" where
  "attached n w = list_ex (\<lambda>m. ident m = ident n) (body w)"

definition detach :: "dom_node \<Rightarrow> dom_node list \<Rightarrow> dom_node list" where
  "detach n ns = filter (\<lambda>m. ident m \<noteq> ident n) ns"

text \<open>\<open>document.body.appendChild\<close>: a node that has a parent leaves it first.\<close>

definition appendChild :: "dom_node \<Rightarrow> world \<Rightarrow> world" where
  "appendChild n w =
     w\<lparr>body := detach n (body w) @ [n], trace := trace w @ [ChildAppended (ident n)]\<rparr>"

text \<open>\<open>document.body.removeChild\<close> throws when the node is not a child of the body.\<close>

definition removeChild :: "dom_node \<Rightarrow> world \<Rightarrow> (error + unit) \<times> world" where
  "removeChild n w =
     (if attached n w
      then (Inr (), w\<lparr>body := detach n (body w), trace := trace w @ [ChildRemoved (ident n)]\<rparr>)
      else (Inl NotFoundError, w))"

text \<open>\<open>node.remove()\<close> does nothing when the node has no parent.\<close>

definition remove :: "dom_node \<Rightarrow> world \<Rightarrow> world" where
  "remove n w =
     (if attached n w
      then w\<lparr>body := detach n (body w), trace := trace w @ [ChildRemoved (ident n)]\<rparr>
      else w)"

definition getElementById :: "jsstring \<Rightarrow> world \<Rightarrow> dom_node option" where
  "getElementById i w = find (\<lambda>m. map_of (attrs m) (js ''id'') = Some i) (body w)"

section \<open>The functions of the module\<close>

text \<open>
  \<open>getTitleWidth\<close>. Assigning \<open>innerHTML\<close> gives the \<open>div\<close> a first child: the \<open>text\<close>
  element with the attributes of the markup, holding the title.
\<close>

definition title_node :: "nat \<Rightarrow> jstext \<Rightarrow> dom_node" where
  \<open>title_node i title =
     \<lparr>ident = i, tag = js ''text'',
      attrs = [(js ''id'', js ''britechart_title''), (js ''y'', js ''40''),
               (js ''font-family'', js '''Heebo', sans-serif''),
               (js ''style'', js ''display=none''), (js ''font-size'', js ''20px'')],
      content = to_string title\<rparr>\<close>

definition set_innerHTML :: "jstext \<Rightarrow> world \<Rightarrow> dom_node \<times> world" where
  "set_innerHTML title w =
     (title_node (next_ident w) title,
      w\<lparr>next_ident := Suc (next_ident w),
        trace := trace w @ [ElementCreated (js ''text'') (next_ident w)]\<rparr>)"

definition getTitleWidth :: "env \<Rightarrow> jstext \<Rightarrow> world \<Rightarrow> (error + int) \<times> world" where
  "getTitleWidth env title w =
     (let (container, w1) = createElement (js ''div'') w;
          (text, w2) = set_innerHTML title w1;
          w3 = appendChild text w2
      in (case getElementById (js ''britechart_title'') w3 of
            None \<Rightarrow> (Inl TypeError, w3)
          | Some el \<Rightarrow> (Inr (offsetWidth env el), remove text w3)))"

text \<open>\<open>colors[6]\<close>: an index beyond the schema reads \<open>undefined\<close>.\<close>

definition colors_at :: "env \<Rightarrow> nat \<Rightarrow> jstext" where
  "colors_at env i = (if i < length (colors env) then Str (colors env ! i) else Undefined)"

text \<open>
  The value of \<open>(svgWidth / 2) - (titleWidth / 2)\<close> as the template prints it. For two
  integers of magnitude below \<open>2 ^ 52\<close> both halves and their difference are doubles, so
  the arithmetic is exact and the text is the decimal one. Beyond that the doubles round
  and \<open>toString\<close> changes to the exponent form: the text is the platform's. An infinite
  width stays infinite, and \<open>NaN\<close> or \<open>undefined\<close> give \<open>NaN\<close>.
\<close>

definition exact_range :: "int \<Rightarrow> bool" where
  "exact_range n = (\<bar>n\<bar> < 2 ^ 52)"

fun title_x :: "env \<Rightarrow> jsnumber \<Rightarrow> int \<Rightarrow> jsstring" where
  "title_x env (Num svgWidth) titleWidth =
     (if exact_range svgWidth \<and> exact_range titleWidth
      then half_to_string (svgWidth - titleWidth)
      else double_text env svgWidth titleWidth)"
| "title_x env PosInfinity titleWidth = js ''Infinity''"
| "title_x env NegInfinity titleWidth = js ''-Infinity''"
| "title_x env NaN titleWidth = js ''NaN''"
| "title_x env NoNumber titleWidth = js ''NaN''"

definition title_template :: "env \<Rightarrow> jstext \<Rightarrow> jsnumber \<Rightarrow> int \<Rightarrow> jsstring" where
  \<open>title_template env title svgWidth titleWidth =
     js ''svg">\<newline>                <text x="'' @ title_x env svgWidth titleWidth
     @ js ''" y="40" font-family="'Heebo', sans-serif" font-size="20px" fill="''
     @ to_string (colors_at env 6)
     @ js ''">\<newline>                    '' @ to_string title
     @ js ''\<newline>                </text><g\<newline>            ''\<close>

definition prependTitle ::
  "env \<Rightarrow> jsstring \<Rightarrow> jstext \<Rightarrow> jsnumber \<Rightarrow> world \<Rightarrow> (error + jsstring) \<times> world" where
  "prependTitle env html title svgWidth w =
     (if \<not> truthy title \<or> \<not> truthy_number svgWidth then (Inr html, w)
      else (case getTitleWidth env title w of
              (Inl e, w') \<Rightarrow> (Inl e, w')
            | (Inr titleWidth, w') \<Rightarrow>
                (Inr (replace (literal (js ''<g''))
                        (title_template env title svgWidth titleWidth) html), w')))"

definition createCanvas :: "int \<Rightarrow> int \<Rightarrow> world \<Rightarrow> canvas \<times> world" where
  "createCanvas width height w =
     (let (el, w1) = createElement (js ''canvas'') w
      in (\<lparr>canvas_ident = ident el, canvas_width = width, canvas_height = height\<rparr>, w1))"

text \<open>
  \<open>createImage\<close>: the image exists before the encoder runs, so it stays when the encoder
  throws. The encoder takes the text of its argument, \<open>undefined\<close> included.
\<close>

definition createImage :: "jstext \<Rightarrow> world \<Rightarrow> (error + image) \<times> world" where
  "createImage svgHtml w =
     (let i = next_ident w;
          w1 = w\<lparr>next_ident := Suc i, trace := trace w @ [ImageCreated i]\<rparr>
      in (case btoa (to_string svgHtml) of
            Inl e \<Rightarrow> (Inl e, w1)
          | Inr payload \<Rightarrow>
              (Inr \<lparr>image_ident = i, src = imageSourceBase @ payload\<rparr>,
               w1\<lparr>trace := trace w1 @ [SourceAssigned i (imageSourceBase @ payload)]\<rparr>)))"

definition drawImageOnCanvas :: "image \<Rightarrow> canvas \<Rightarrow> world \<Rightarrow> world" where
  "drawImageOnCanvas img c w = w\<lparr>trace := trace w @ [ImageDrawn (image_ident img) (canvas_ident c)]\<rparr>"

text \<open>\<open>downloadCanvas\<close>: a default parameter stands in for an argument that is \<open>undefined\<close>.\<close>

definition default_parameter :: "jsstring \<Rightarrow> jstext \<Rightarrow> jsstring" where
  "default_parameter d v = (case v of Undefined \<Rightarrow> d | _ \<Rightarrow> to_string v)"

definition download_link :: "nat \<Rightarrow> jsstring \<Rightarrow> jsstring \<Rightarrow> dom_node" where
  "download_link i url filename =
     \<lparr>ident = i, tag = js ''a'',
      attrs = [(js ''href'', url), (js ''download'', filename)], content = []\<rparr>"

definition downloadCanvas ::
  "env \<Rightarrow> canvas \<Rightarrow> jstext \<Rightarrow> jstext \<Rightarrow> world \<Rightarrow> (error + unit) \<times> world" where
  "downloadCanvas env c filename extensionType w =
     (let url = toDataURL env c (default_parameter (js ''image/png'') extensionType);
          (el, w1) = createElement (js ''a'') w;
          link = download_link (ident el) url (default_parameter (js ''britechart.png'') filename);
          w2 = appendChild link w1;
          w3 = w2\<lparr>trace := trace w2 @ [LinkClicked link]\<rparr>
      in removeChild link w3)"

definition handleImageLoad ::
  "env \<Rightarrow> image \<Rightarrow> canvas \<Rightarrow> jstext \<Rightarrow> world \<Rightarrow> (error + unit) \<times> world" where
  "handleImageLoad env this c filename w =
     (let w1 = w\<lparr>trace := trace w @ [DefaultPrevented]\<rparr>;
          w2 = drawImageOnCanvas this c w1
      in downloadCanvas env c (if truthy filename then filename else Str defaultFilename)
           Undefined w2)"

definition attr :: "svg \<Rightarrow> jsstring \<Rightarrow> jstext" where
  "attr d3svg name = (case map_of (svg_attrs d3svg) name of Some v \<Rightarrow> Str v | None \<Rightarrow> Null)"

definition convertSvgToHtml ::
  "env \<Rightarrow> svg option \<Rightarrow> jstext \<Rightarrow> world \<Rightarrow> (error + jstext) \<times> world" where
  "convertSvgToHtml env d3svg title w =
     (case d3svg of
        None \<Rightarrow> (Inr Undefined, w)
      | Some node \<Rightarrow>
          (let written = [(js ''version'', js ''1.1''), (js ''xmlns'', js ''http://www.w3.org/2000/svg'')];
               node' = node\<lparr>svg_attrs :=
                 AList.update (js ''xmlns'') (js ''http://www.w3.org/2000/svg'')
                   (AList.update (js ''version'') (js ''1.1'') (svg_attrs node))\<rparr>;
               w1 = w\<lparr>trace := trace w @ [AttributesWritten written]\<rparr>;
               html = formatHtmlByBrowser env (serializer env node')
           in (case prependTitle env html title (parseInt env (attr node' (js ''width''))) w1 of
                 (Inl e, w2) \<Rightarrow> (Inl e, w2)
               | (Inr html', w2) \<Rightarrow> (Inr (Str (addBackground html')), w2))))"

text \<open>
  \<open>exportChart\<close>, with the \<open>this.width()\<close> and \<open>this.height()\<close> of the chart as arguments.
  An absent \<open>d3svg\<close> is \<open>None\<close>.
\<close>

definition exportChart ::
  "env \<Rightarrow> int \<Rightarrow> int \<Rightarrow> svg option \<Rightarrow> jstext \<Rightarrow> jstext \<Rightarrow> world \<Rightarrow> (error + unit) \<times> world" where
  "exportChart env width height d3svg filename title w =
     (case convertSvgToHtml env d3svg title w of
        (Inl e, w1) \<Rightarrow> (Inl e, w1)
      | (Inr html, w1) \<Rightarrow>
          (case createImage html w1 of
             (Inl e, w2) \<Rightarrow> (Inl e, w2)
           | (Inr img, w2) \<Rightarrow>
               (let (c, w3) = createCanvas width height w2
                in (Inr (), w3\<lparr>trace := trace w3 @ [OnloadBound (image_ident img) c filename]\<rparr>))))"

text \<open>
  An environment and a document to run the functions on. The layout of the example gives
  every character ten pixels and an element ten more.
\<close>

definition example_env :: "jsstring \<Rightarrow> env" where
  "example_env browser =
     \<lparr>bowser_name = browser, lineGradientId = js ''lineGradientId'',
      colors = map js [''#F7F8F9'', ''#EFF2F5'', ''#D2D6DF'', ''#C3C6CF'', ''#ADB0B6'',
                       ''#666A73'', ''#45494E'', ''#363A43'', ''#282C35''],
      serializer = (\<lambda>node. js ''<svg><g></g></svg>''),
      parseInt = (\<lambda>v. NaN),
      double_text = (\<lambda>a b. js ''NaN''),
      offsetWidth = (\<lambda>el. 10 * int (length (content el)) + 10),
      toDataURL = (\<lambda>c t. js ''data:'' @ t @ js '';base64,AAAA'')\<rparr>"

definition empty_world :: world where
  "empty_world = \<lparr>next_ident = 0, body = [], trace = []\<rparr>"

definition example_world :: world where
  "example_world =
     \<lparr>next_ident = 1,
      body = [\<lparr>ident = 0, tag = js ''div'', attrs = [(js ''class'', js ''chart'')], content = []\<rparr>],
      trace = []\<rparr>"

section \<open>What the claims speak of\<close>

text \<open>
  The texts that the regular expression \<open>/url.*&quot;\)/\<close> stands for: \<open>url\<close>, then any
  code units of one line, then \<open>&quot;)\<close>.
\<close>

definition url_fragment :: "jsstring \<Rightarrow> bool" where
  "url_fragment m = (\<exists>mid. m = js ''url'' @ mid @ js ''&quot;)'' \<and> \<not> list_ex line_terminator mid)"







section \<open>Facts about replacing\<close>

lemma GetSubstitution_plain:
  "36 \<notin> set r \<Longrightarrow> GetSubstitution m a b r = r"
  by (induction m a b r rule: GetSubstitution.induct) auto



lemma prefix_append_long:
  "prefix p (xs @ ys) \<Longrightarrow> length p \<le> length xs \<Longrightarrow> prefix p xs"
  by (metis prefix_length_prefix prefix_order.dual_order.refl prefixI append_prefixD prefix_append)

lemma search_here: "m s = Some n \<Longrightarrow> search m s = Some (0, n)"
  by (cases s) auto

lemma search_literal_first:
  "p \<noteq> [] \<Longrightarrow> \<not> sublist p (before @ butlast p) \<Longrightarrow>
   search (literal p) (before @ p @ after) = Some (length before, length p)"
proof (induction before)
  case Nil
  then show ?case by (simp add: search_here literal_def)
next
  case (Cons c cs)
  have "\<not> prefix p ((c # cs) @ p @ after)"
  proof
    assume "prefix p ((c # cs) @ p @ after)"
    then have "prefix p (((c # cs) @ butlast p) @ [last p] @ after)"
      using Cons.prems(1) by (metis append.assoc append_butlast_last_id)
    then have "prefix p ((c # cs) @ butlast p)"
      by (rule prefix_append_long) simp
    then show False using Cons.prems(2) by (meson prefix_imp_sublist)
  qed
  moreover have "\<not> sublist p (cs @ butlast p)"
    using Cons.prems(2) by (simp add: sublist_Cons_right)
  ultimately show ?case using Cons.IH Cons.prems(1) by (simp add: literal_def)
qed

lemma search_literal_None:
  "p \<noteq> [] \<Longrightarrow> \<not> sublist p s \<Longrightarrow> search (literal p) s = None"
proof (induction s)
  case Nil
  then show ?case by (simp add: literal_def)
next
  case (Cons c cs)
  then show ?case by (auto simp: literal_def sublist_Cons_right)
qed

lemma replace_at:
  "search m (before @ matched @ after) = Some (length before, length matched) \<Longrightarrow>
   replace m r (before @ matched @ after) = before @ GetSubstitution matched before after r @ after"
  by (simp add: replace_def)

lemma replace_None: "search m s = None \<Longrightarrow> replace m r s = s"
  by (simp add: replace_def)


section \<open>Facts about the regular expression\<close>

lemma prefix_split: "prefix p s \<Longrightarrow> s = p @ drop (length p) s"
  by (auto simp: prefix_def)

lemma dot_star_then_sound:
  "dot_star_then p s = Some k \<Longrightarrow>
   \<exists>mid. s = mid @ p @ drop k s \<and> k = length mid + length p \<and> \<not> list_ex line_terminator mid"
proof (induction s arbitrary: k)
  case Nil
  then show ?case by (simp split: if_splits)
next
  case (Cons c cs)
  show ?case
  proof (cases "if line_terminator c then None else dot_star_then p cs")
    case None
    then have "prefix p (c # cs)" and "k = length p"
      using Cons.prems by (simp_all split: if_splits)
    then have "c # cs = [] @ p @ drop k (c # cs)"
      using prefix_split [of p "c # cs"] by simp
    then show ?thesis using \<open>k = length p\<close> by (intro exI [of _ "[]"]) simp
  next
    case (Some n)
    then have c: "\<not> line_terminator c" and n: "dot_star_then p cs = Some n"
      by (simp_all split: if_splits)
    have k: "k = Suc n" using Cons.prems Some by simp
    obtain mid where "cs = mid @ p @ drop n cs" "n = length mid + length p"
        "\<not> list_ex line_terminator mid"
      using Cons.IH [OF n] by blast
    then show ?thesis using c k by (intro exI [of _ "c # mid"]) simp
  qed
qed

lemma dot_star_then_complete:
  "\<not> list_ex line_terminator mid \<Longrightarrow>
   \<exists>k. dot_star_then p (mid @ p @ post) = Some k \<and> length mid + length p \<le> k"
proof (induction mid)
  case Nil
  show ?case
  proof (cases "p @ post")
    case Nil
    then show ?thesis by simp
  next
    case (Cons c cs)
    show ?thesis
    proof (cases "if line_terminator c then None else dot_star_then p cs")
      case None
      moreover have "prefix p (c # cs)" using Cons by (metis prefixI)
      ultimately show ?thesis by (simp add: Cons)
    next
      case (Some n)
      then have "dot_star_then p cs = Some n" by (simp split: if_splits)
      then have "length p \<le> Suc n" using dot_star_then_sound [of p cs n] by auto
      then show ?thesis using Cons Some by simp
    qed
  qed
next
  case (Cons c mid)
  then obtain k where "dot_star_then p (mid @ p @ post) = Some k" "length mid + length p \<le> k"
    by auto
  then show ?case using Cons.prems by simp
qed

lemma search_sound:
  "search m s = Some (i, n) \<Longrightarrow>
   i \<le> length s \<and> m (drop i s) = Some n \<and> (\<forall>j<i. m (drop j s) = None)"
proof (induction s arbitrary: i)
  case Nil
  then show ?case by (simp split: option.splits)
next
  case (Cons c cs)
  show ?case
  proof (cases "m (c # cs)")
    case (Some k)
    then show ?thesis using Cons.prems by simp
  next
    case None
    then obtain i' where i': "search m cs = Some (i', n)" "i = Suc i'"
      using Cons.prems by (auto split: option.splits)
    have "m (drop j (c # cs)) = None" if "j < i" for j
      using that None Cons.IH [OF i'(1)] i'(2) by (cases j) auto
    then show ?thesis using Cons.IH [OF i'(1)] i'(2) by simp
  qed
qed

lemma search_complete:
  "m after \<noteq> None \<Longrightarrow> search m (before @ after) \<noteq> None"
proof (induction before)
  case Nil
  then show ?case by (cases after) auto
next
  case (Cons c cs)
  then show ?case by (auto split: option.splits)
qed

lemma url_regex_sound:
  assumes "url_regex s = Some n"
  shows "url_fragment (take n s) \<and> n \<le> length s"
proof -
  have p: "prefix (js ''url'') s"
    using assms by (simp add: url_regex_def split: if_splits)
  then have s: "s = js ''url'' @ drop 3 s"
    using prefix_split [of "js ''url''" s] by (simp add: js_def numeral_3_eq_3)
  obtain k where k: "dot_star_then (js ''&quot;)'') (drop 3 s) = Some k" "n = 3 + k"
    using assms p by (auto simp: url_regex_def split: option.splits)
  obtain mid where mid: "drop 3 s = mid @ js ''&quot;)'' @ drop k (drop 3 s)"
      "k = length mid + length (js ''&quot;)'')" "\<not> list_ex line_terminator mid"
    using dot_star_then_sound [OF k(1)] by blast
  have whole: "s = (js ''url'' @ mid @ js ''&quot;)'') @ drop k (drop 3 s)"
    using s mid(1) by (metis append.assoc)
  have len: "length (js ''url'' @ mid @ js ''&quot;)'') = n"
    using k(2) mid(2) by (simp add: js_def)
  have "take n s = take n ((js ''url'' @ mid @ js ''&quot;)'') @ drop k (drop 3 s))"
    using whole by simp
  also have "\<dots> = js ''url'' @ mid @ js ''&quot;)''"
    using len by simp
  finally have "take n s = js ''url'' @ mid @ js ''&quot;)''" .
  moreover have "n \<le> length s"
    using len whole by (metis length_append le_add1)
  ultimately show ?thesis using mid(3) by (auto simp: url_fragment_def)
qed

lemma url_regex_complete:
  assumes "url_fragment m"
  shows "\<exists>n. url_regex (m @ post) = Some n \<and> length m \<le> n"
proof -
  obtain mid where m: "m = js ''url'' @ mid @ js ''&quot;)''" "\<not> list_ex line_terminator mid"
    using assms by (auto simp: url_fragment_def)
  obtain k where "dot_star_then (js ''&quot;)'') (mid @ js ''&quot;)'' @ post) = Some k"
      "length mid + length (js ''&quot;)'') \<le> k"
    using dot_star_then_complete [OF m(2)] by blast
  then show ?thesis
    using m(1) by (simp add: url_regex_def js_def)
qed

lemma replacement_plain:
  "36 \<notin> set gradient_id \<Longrightarrow> 36 \<notin> set (formatHtmlByBrowser_replacement gradient_id)"
  by (simp add: formatHtmlByBrowser_replacement_def js_def)

lemma no_fragment_unchanged:
  assumes "\<not> (\<exists>pre m post. html = pre @ m @ post \<and> url_fragment m)"
  shows "replace url_regex r html = html"
proof (cases "search url_regex html")
  case None
  then show ?thesis by (simp add: replace_def)
next
  case (Some found)
  obtain i n where "search url_regex html = Some (i, n)"
    using Some by (cases found) simp
  then have "url_regex (drop i html) = Some n"
    using search_sound by blast
  then have "url_fragment (take n (drop i html))"
    using url_regex_sound by blast
  moreover have "html = take i html @ take n (drop i html) @ drop n (drop i html)"
    by (simp only: append_take_drop_id)
  ultimately show ?thesis using assms by blast
qed

lemma fragment_replaced:
  assumes "html = pre0 @ m0 @ post0" and "url_fragment m0" and "36 \<notin> set r"
  shows "\<exists>pre m post. html = pre @ m @ post \<and> url_fragment m
      \<and> (\<forall>pre' m' post'. html = pre' @ m' @ post' \<and> url_fragment m'
            \<longrightarrow> length pre \<le> length pre'
              \<and> (length pre' = length pre \<longrightarrow> length m' \<le> length m))
      \<and> replace url_regex r html = pre @ r @ post"
proof -
  have "url_regex (m0 @ post0) \<noteq> None"
    using url_regex_complete [OF assms(2)] by auto
  then have "search url_regex html \<noteq> None"
    unfolding assms(1) by (rule search_complete)
  then obtain i n where found: "search url_regex html = Some (i, n)"
    by auto
  then have i: "i \<le> length html" and at: "url_regex (drop i html) = Some n"
    and leftmost: "\<forall>j<i. url_regex (drop j html) = None"
    using search_sound [OF found] by simp_all
  have m: "url_fragment (take n (drop i html))" and n: "n \<le> length (drop i html)"
    using url_regex_sound [OF at] by simp_all
  have "drop (i + n) html = drop n (drop i html)"
    by (simp add: add.commute)
  then have split: "html = take i html @ take n (drop i html) @ drop (i + n) html"
    by (simp only: append_take_drop_id)
  have result: "replace url_regex r html = take i html @ r @ drop (i + n) html"
    using found by (simp add: replace_def GetSubstitution_plain [OF assms(3)])
  have "length (take i html) \<le> length pre'
      \<and> (length pre' = length (take i html) \<longrightarrow> length m' \<le> length (take n (drop i html)))"
    if other: "html = pre' @ m' @ post'" "url_fragment m'" for pre' m' post'
  proof -
    obtain n' where n': "url_regex (m' @ post') = Some n'" "length m' \<le> n'"
      using url_regex_complete [OF other(2)] by blast
    have here: "drop (length pre') html = m' @ post'"
      using other(1) by simp
    have "\<not> length pre' < i"
      using leftmost n'(1) here by auto
    moreover have "length m' \<le> n" if "length pre' = i"
      using that at n' here by simp
    moreover have "length (take i html) = i" "length (take n (drop i html)) = n"
      using i n by simp_all
    ultimately show ?thesis by auto
  qed
  then show ?thesis
    using split m result by blast
qed

section \<open>Facts about the title and the background\<close>




lemma sublist_single: "sublist [x] xs \<longleftrightarrow> x \<in> set xs"
  by (induction xs) (auto simp: sublist_Cons_right)

lemma getTitleWidth_found:
  "getElementById (js ''britechart_title'') (appendChild (title_node i title) w) \<noteq> None"
proof -
  have "title_node i title \<in> set (body (appendChild (title_node i title) w))"
    by (simp add: appendChild_def)
  moreover have "map_of (attrs (title_node i title)) (js ''id'') = Some (js ''britechart_title'')"
    by (simp add: title_node_def js_def)
  ultimately show ?thesis
    unfolding getElementById_def find_None_iff by blast
qed

lemma getTitleWidth_returns: "\<exists>titleWidth w'. getTitleWidth env title w = (Inr titleWidth, w')"
proof -
  obtain el where "getElementById (js ''britechart_title'')
      (appendChild (title_node (Suc (next_ident w)) title)
        (snd (set_innerHTML title (snd (createElement (js ''div'') w))))) = Some el"
    using getTitleWidth_found by blast
  then show ?thesis
    by (simp add: getTitleWidth_def createElement_def set_innerHTML_def)
qed














lemma styleBackgroundString_plain: "36 \<notin> set (js ''>'' @ styleBackgroundString)"
  by (simp add: styleBackgroundString_def chartBackground_def js_def)

lemma addBackground_at_first:
  assumes "62 \<notin> set before"
  shows "addBackground (before @ js ''>'' @ after) = before @ js ''>'' @ styleBackgroundString @ after"
proof -
  have "\<not> sublist (js ''>'') (before @ butlast (js ''>''))"
    using assms by (simp add: js_def sublist_single)
  then have "search (literal (js ''>'')) (before @ js ''>'' @ after)
      = Some (length before, length (js ''>''))"
    by (intro search_literal_first) (simp_all add: js_def)
  then show ?thesis
    unfolding addBackground_def
    by (simp add: replace_at GetSubstitution_plain [OF styleBackgroundString_plain])
qed

section \<open>Facts about base64\<close>

lemma index_of_nth:
  "distinct xs \<Longrightarrow> n < length xs \<Longrightarrow> index_of (xs ! n) xs = Some n"
proof (induction xs arbitrary: n)
  case Nil
  then show ?case by simp
next
  case (Cons x xs)
  then show ?case by (cases n) auto
qed

lemma base64_table_distinct: "distinct base64_table"
  by (simp add: base64_table_def js_def)

lemma base64_table_length: "length base64_table = 64"
  by (simp add: base64_table_def js_def)

lemma base64_value_char: "n < 64 \<Longrightarrow> base64_value (base64_char n) = Some n"
  using index_of_nth [OF base64_table_distinct, of n]
  by (simp add: base64_value_def base64_char_def base64_table_length)

lemma base64_char_not_pad: "base64_char n \<noteq> 61"
proof -
  have "base64_char n \<in> set base64_table"
    by (simp add: base64_char_def base64_table_length)
  moreover have "61 \<notin> set base64_table"
    by (simp add: base64_table_def js_def)
  ultimately show ?thesis by metis
qed

lemma sextets_bounds:
  fixes a b c :: nat
  assumes "a < 256" "b < 256" "c < 256"
  shows "a div 4 < 64" "a mod 4 * 16 < 64" "a mod 4 * 16 + b div 16 < 64"
    "b mod 16 * 4 < 64" "b mod 16 * 4 + c div 64 < 64" "c mod 64 < 64"
proof -
  have "a mod 4 < 4" "b mod 16 < 16" "b div 16 < 16" "c div 64 < 4" using assms by simp_all
  then show "a div 4 < 64" "a mod 4 * 16 < 64" "a mod 4 * 16 + b div 16 < 64"
    "b mod 16 * 4 < 64" "b mod 16 * 4 + c div 64 < 64" "c mod 64 < 64"
    using assms by simp_all
qed

lemma sextets_bytes:
  fixes a b c :: nat
  assumes "a < 256" "b < 256" "c < 256"
  shows "a div 4 * 4 + (a mod 4 * 16) div 16 = a"
    "a div 4 * 4 + (a mod 4 * 16 + b div 16) div 16 = a"
    "(a mod 4 * 16 + b div 16) mod 16 * 16 + (b mod 16 * 4) div 4 = b"
    "(a mod 4 * 16 + b div 16) mod 16 * 16 + (b mod 16 * 4 + c div 64) div 4 = b"
    "(b mod 16 * 4 + c div 64) mod 4 * 64 + c mod 64 = c"
proof -
  have b16: "b div 16 < 16" and c64: "c div 64 < 4" using assms by simp_all
  have 1: "(a mod 4 * 16 + b div 16) div 16 = a mod 4" using b16 by simp
  have 2: "(a mod 4 * 16 + b div 16) mod 16 = b div 16" using b16 by simp
  have 3: "(b mod 16 * 4 + c div 64) div 4 = b mod 16" using c64 by simp
  have 4: "(b mod 16 * 4 + c div 64) mod 4 = c div 64" using c64 by simp
  show "a div 4 * 4 + (a mod 4 * 16) div 16 = a" by simp
  show "a div 4 * 4 + (a mod 4 * 16 + b div 16) div 16 = a" unfolding 1 by simp
  show "(a mod 4 * 16 + b div 16) mod 16 * 16 + (b mod 16 * 4) div 4 = b" unfolding 2 by simp
  show "(a mod 4 * 16 + b div 16) mod 16 * 16 + (b mod 16 * 4 + c div 64) div 4 = b"
    unfolding 2 3 by simp
  show "(b mod 16 * 4 + c div 64) mod 4 * 64 + c mod 64 = c" unfolding 4 by simp
qed

lemma base64_roundtrip:
  "list_all (\<lambda>b. b < 256) bs \<Longrightarrow> base64_decode (base64_encode bs) = Some (map of_nat bs)"
proof (induction bs rule: base64_encode.induct)
  case 1
  then show ?case by simp
next
  case (2 a)
  then have "a < 256" by simp
  then show ?case
    using sextets_bounds [of a 0 0] sextets_bytes [of a 0 0] by (simp add: base64_value_char)
next
  case (3 a b)
  then have "a < 256" "b < 256" by simp_all
  then show ?case
    using sextets_bounds [of a b 0] sextets_bytes [of a b 0] by (simp add: base64_value_char base64_char_not_pad)
next
  case (4 a b c r)
  then have "a < 256" "b < 256" "c < 256" by simp_all
  moreover have "base64_decode (base64_encode r) = Some (map of_nat r)"
    using 4 by simp
  ultimately show ?case
    using sextets_bounds [of a b c] sextets_bytes [of a b c] by (simp add: base64_value_char base64_char_not_pad)
qed

lemma latin1_bytes:
  "list_all (\<lambda>c. c \<le> 0xFF) (s :: jsstring) \<Longrightarrow> list_all (\<lambda>b. b < 256) (map unat s)"
  by (induction s) (auto simp: word_le_nat_alt)

lemma btoa_latin1:
  "list_all (\<lambda>c. c \<le> 0xFF) s \<Longrightarrow> btoa s = Inr (base64_encode (map unat s))"
  by (induction s) (auto simp: btoa_def list_ex_iff list_all_iff)

lemma btoa_not_latin1:
  "\<not> list_all (\<lambda>c. c \<le> 0xFF) s \<Longrightarrow> btoa s = Inl InvalidCharacterError"
  by (induction s) (auto simp: btoa_def not_le)

section \<open>Facts about the document\<close>

lemma detach_fresh:
  "list_all (\<lambda>m. ident m < k) ns \<Longrightarrow> k \<le> ident n \<Longrightarrow> detach n ns = ns"
  by (induction ns) (auto simp: detach_def)

lemma detach_appended: "detach n (ns @ [n]) = detach n ns"
  by (simp add: detach_def)

lemma find_snoc:
  "find P (xs @ [x]) = (case find P xs of Some y \<Rightarrow> Some y | None \<Rightarrow> if P x then Some x else None)"
  by (induction xs) auto

lemma mount_and_unmount:
  assumes "wf_world w" and "next_ident w \<le> ident n"
  shows "body (appendChild n (w\<lparr>next_ident := k, trace := t\<rparr>)) = body w @ [n]"
    and "attached n (appendChild n (w\<lparr>next_ident := k, trace := t\<rparr>))"
    and "detach n (body w @ [n]) = body w"
  using assms detach_fresh [of "next_ident w" "body w" n]
  by (simp_all add: appendChild_def wf_world_def attached_def detach_appended)

lemma getTitleWidth_run:
  assumes "wf_world w"
  shows "getTitleWidth env title w =
    (Inr (case getElementById (js ''britechart_title'') w of
            Some el \<Rightarrow> offsetWidth env el
          | None \<Rightarrow> offsetWidth env (title_node (Suc (next_ident w)) title)),
     w\<lparr>next_ident := Suc (Suc (next_ident w)),
       trace := trace w @
         [ElementCreated (js ''div'') (next_ident w),
          ElementCreated (js ''text'') (Suc (next_ident w)),
          ChildAppended (Suc (next_ident w)),
          ChildRemoved (Suc (next_ident w))]\<rparr>)"
proof -
  let ?text = "title_node (Suc (next_ident w)) title"
  have fresh: "next_ident w \<le> ident ?text"
    by (simp add: title_node_def)
  have named: "map_of (attrs ?text) (js ''id'') = Some (js ''britechart_title'')"
    by (simp add: title_node_def js_def)
  note mounted = mount_and_unmount [OF assms fresh]
  have found: "getElementById (js ''britechart_title'')
      (appendChild ?text (w\<lparr>next_ident := k, trace := t\<rparr>)) =
      (case getElementById (js ''britechart_title'') w of
         Some el \<Rightarrow> Some el | None \<Rightarrow> Some ?text)" for k t
    using named by (simp add: getElementById_def mounted(1) find_snoc)
  show ?thesis
    using mounted
    by (simp add: getTitleWidth_def createElement_def set_innerHTML_def found remove_def
        split: option.splits)
       (simp add: appendChild_def title_node_def)
qed

lemma downloadCanvas_run:
  assumes "wf_world w"
  shows "downloadCanvas env c filename extensionType w =
    (Inr (),
     w\<lparr>next_ident := Suc (next_ident w),
       trace := trace w @
         [ElementCreated (js ''a'') (next_ident w),
          ChildAppended (next_ident w),
          LinkClicked
            (download_link (next_ident w)
              (toDataURL env c (default_parameter (js ''image/png'') extensionType))
              (default_parameter (js ''britechart.png'') filename)),
          ChildRemoved (next_ident w)]\<rparr>)"
proof -
  let ?link = "download_link (next_ident w)
      (toDataURL env c (default_parameter (js ''image/png'') extensionType))
      (default_parameter (js ''britechart.png'') filename)"
  have fresh: "next_ident w \<le> ident ?link"
    by (simp add: download_link_def)
  note mounted = mount_and_unmount [OF assms fresh]
  have clicked: "attached ?link (appendChild ?link (w\<lparr>next_ident := k, trace := t\<rparr>)\<lparr>trace := t'\<rparr>)"
    for k t t'
    using mounted(1) [where k = k and t = t] by (simp add: attached_def)
  show ?thesis
    using mounted(1,3)
    by (simp add: downloadCanvas_def createElement_def removeChild_def clicked Let_def)
       (simp add: appendChild_def download_link_def)
qed

section \<open>The export without a graphic node\<close>

text \<open>
  Claim C1 says that \<open>exportChart\<close> with an absent graphic node stops at once, creating no
  image and no canvas. The guard of \<open>convertSvgToHtml\<close> returns \<open>undefined\<close>, but
  \<open>exportChart\<close> does not look at it: for every environment, chart size, filename, title and
  document, the call creates an image whose source is the base64 text of the word
  \<open>undefined\<close>, creates a canvas and binds the load handler. It creates no link and throws
  nothing.
\<close>

theorem exportChart_absent_node:
  "exportChart env width height None filename title w =
    (Inr (), w\<lparr>next_ident := Suc (Suc (next_ident w)),
       trace := trace w @
         [ImageCreated (next_ident w),
          SourceAssigned (next_ident w) (js ''data:image/svg+xml;base64,dW5kZWZpbmVk''),
          ElementCreated (js ''canvas'') (Suc (next_ident w)),
          OnloadBound (next_ident w)
            \<lparr>canvas_ident = Suc (next_ident w), canvas_width = width, canvas_height = height\<rparr>
            filename]\<rparr>)"
  by (simp add: exportChart_def convertSvgToHtml_def createImage_def createCanvas_def
      createElement_def btoa_def js_def imageSourceBase_def base64_char_def base64_table_def Let_def)

text \<open>The call \<open>exportChart(undefined, 'sales.png', 'Sales')\<close> on a chart of 400 by 200.\<close>

theorem exportChart_absent_node_witness:
  "exportChart (example_env (js ''Chrome'')) 400 200 None (Str (js ''sales.png'')) (Str (js ''Sales''))
     empty_world =
    (Inr (), \<lparr>next_ident = 2, body = [],
       trace =
         [ImageCreated 0,
          SourceAssigned 0 (js ''data:image/svg+xml;base64,dW5kZWZpbmVk''),
          ElementCreated (js ''canvas'') 1,
          OnloadBound 0 \<lparr>canvas_ident = 1, canvas_width = 400, canvas_height = 200\<rparr>
            (Str (js ''sales.png''))]\<rparr>)"
  using exportChart_absent_node [of "example_env (js ''Chrome'')" 400 200 "Str (js ''sales.png'')"
      "Str (js ''Sales'')" empty_world]
  by (simp add: empty_world_def)

section \<open>The browser quirk normalizer\<close>

text \<open>
  Claim C2, amended. \<open>formatHtmlByBrowser\<close> is a function of the markup and of the browser's
  name. For every name but \<open>Firefox\<close> it returns the markup as it is, and so is idempotent.
  For \<open>Firefox\<close> (and a \<open>lineGradientId\<close> without a dollar sign) it rewrites the gradient
  reference: the leftmost text \<open>url ... &quot;)\<close> on one line, taken as long as possible, is
  replaced by \<open>url(&quot;#lineGradientId&quot;);\<close>; markup without such a text is returned
  as it is, and there the function is idempotent.
\<close>

theorem formatHtmlByBrowser_rewrites:
  "(bowser_name env \<noteq> js ''Firefox'' \<longrightarrow>
      formatHtmlByBrowser env html = html
      \<and> formatHtmlByBrowser env (formatHtmlByBrowser env html) = formatHtmlByBrowser env html)
   \<and> (bowser_name env = js ''Firefox'' \<and> 36 \<notin> set (lineGradientId env) \<longrightarrow>
        (if \<exists>pre m post. html = pre @ m @ post \<and> url_fragment m
         then \<exists>pre m post. html = pre @ m @ post \<and> url_fragment m
            \<and> (\<forall>pre' m' post'. html = pre' @ m' @ post' \<and> url_fragment m'
                  \<longrightarrow> length pre \<le> length pre'
                    \<and> (length pre' = length pre \<longrightarrow> length m' \<le> length m))
            \<and> formatHtmlByBrowser env html =
                pre @ js ''url(&quot;#'' @ lineGradientId env @ js ''&quot;);'' @ post
         else formatHtmlByBrowser env html = html
            \<and> formatHtmlByBrowser env (formatHtmlByBrowser env html) = formatHtmlByBrowser env html))"
  (is "(_ \<longrightarrow> ?same) \<and> (_ \<longrightarrow> (if ?fragment then ?rewritten else ?same))")
proof (rule conjI; rule impI)
  assume "bowser_name env \<noteq> js ''Firefox''"
  then show ?same
    by (simp add: formatHtmlByBrowser_def)
next
  assume "bowser_name env = js ''Firefox'' \<and> 36 \<notin> set (lineGradientId env)"
  then have firefox: "bowser_name env = js ''Firefox''" and plain: "36 \<notin> set (lineGradientId env)"
    by simp_all
  show "if ?fragment then ?rewritten else ?same"
  proof (cases ?fragment)
    case True
    then obtain pre0 m0 post0 where "html = pre0 @ m0 @ post0" "url_fragment m0"
      by blast
    then have rewritten: ?rewritten
      using fragment_replaced [OF _ _ replacement_plain [OF plain], of html pre0 m0 post0] firefox
      by (simp add: formatHtmlByBrowser_def formatHtmlByBrowser_replacement_def)
    show ?thesis
      unfolding if_P [OF True] by (fact rewritten)
  next
    case False
    then have "formatHtmlByBrowser env html = html"
      using firefox no_fragment_unchanged by (simp add: formatHtmlByBrowser_def)
    then have same: ?same by simp
    show ?thesis
      unfolding if_not_P [OF False] by (fact same)
  qed
qed

text \<open>Under Chrome and under Firefox, with and without a gradient reference.\<close>

theorem formatHtmlByBrowser_rewrites_witness:
  \<open>formatHtmlByBrowser (example_env (js ''Chrome''))
      (js ''<path style="stroke: url(&quot;about:blank#lineGradientId&quot;)"></path>'')
     = js ''<path style="stroke: url(&quot;about:blank#lineGradientId&quot;)"></path>''
   \<and> formatHtmlByBrowser (example_env (js ''Firefox''))
      (js ''<path style="stroke: url(&quot;about:blank#lineGradientId&quot;)"></path>'')
     = js ''<path style="stroke: url(&quot;#lineGradientId&quot;);"></path>''
   \<and> formatHtmlByBrowser (example_env (js ''Firefox'')) (js ''<path style="stroke: none"></path>'')
     = js ''<path style="stroke: none"></path>''\<close>
  using formatHtmlByBrowser_rewrites [of "example_env (js ''Chrome'')"
      \<open>js ''<path style="stroke: url(&quot;about:blank#lineGradientId&quot;)"></path>''\<close>]
    formatHtmlByBrowser_rewrites [of "example_env (js ''Firefox'')"
      \<open>js ''<path style="stroke: url(&quot;about:blank#lineGradientId&quot;)"></path>''\<close>]
    formatHtmlByBrowser_rewrites [of "example_env (js ''Firefox'')"
      \<open>js ''<path style="stroke: none"></path>''\<close>]
  by (simp add: formatHtmlByBrowser_def formatHtmlByBrowser_replacement_def replace_def
      url_regex_def line_terminator_def example_env_def js_def)

text \<open>
  Claim C2 as stated fails for Firefox: the replacement ends in a semicolon that the
  pattern does not match, so a second application adds another one.
\<close>

theorem formatHtmlByBrowser_idempotent_counterexample:
  \<open>formatHtmlByBrowser (example_env (js ''Firefox''))
      (formatHtmlByBrowser (example_env (js ''Firefox''))
        (js ''<path style="stroke: url(&quot;about:blank#lineGradientId&quot;)"></path>''))
     \<noteq> formatHtmlByBrowser (example_env (js ''Firefox''))
        (js ''<path style="stroke: url(&quot;about:blank#lineGradientId&quot;)"></path>'')
   \<and> formatHtmlByBrowser (example_env (js ''Firefox''))
        (js ''<path style="stroke: url(&quot;about:blank#lineGradientId&quot;)"></path>'')
     = js ''<path style="stroke: url(&quot;#lineGradientId&quot;);"></path>''
   \<and> formatHtmlByBrowser (example_env (js ''Firefox''))
        (js ''<path style="stroke: url(&quot;#lineGradientId&quot;);"></path>'')
     = js ''<path style="stroke: url(&quot;#lineGradientId&quot;);;"></path>''\<close>
  by (simp add: formatHtmlByBrowser_def formatHtmlByBrowser_replacement_def replace_def
      url_regex_def line_terminator_def example_env_def js_def)

section \<open>The title overlay\<close>




section \<open>The encoder and the data URI\<close>

text \<open>
  Claim C4, amended. For every markup whose code units are all at most \<open>0xFF\<close>,
  \<open>createImage\<close> assigns to the image the prefix \<open>data:image/svg+xml;base64,\<close> followed by
  the base64 text of the markup, and decoding that text gives the markup back. For markup
  with a code unit above \<open>0xFF\<close> the encoder throws and no source is assigned.
\<close>

theorem createImage_roundtrip:
  "(list_all (\<lambda>c. c \<le> 0xFF) markup \<longrightarrow>
      createImage (Str markup) w =
        (Inr \<lparr>image_ident = next_ident w,
              src = js ''data:image/svg+xml;base64,'' @ base64_encode (map unat markup)\<rparr>,
         w\<lparr>next_ident := Suc (next_ident w),
           trace := trace w @
             [ImageCreated (next_ident w),
              SourceAssigned (next_ident w)
                (js ''data:image/svg+xml;base64,'' @ base64_encode (map unat markup))]\<rparr>)
      \<and> base64_decode (base64_encode (map unat markup)) = Some markup)
   \<and> (\<not> list_all (\<lambda>c. c \<le> 0xFF) markup \<longrightarrow>
      createImage (Str markup) w =
        (Inl InvalidCharacterError,
         w\<lparr>next_ident := Suc (next_ident w), trace := trace w @ [ImageCreated (next_ident w)]\<rparr>))"
proof (rule conjI; rule impI)
  assume latin1: "list_all (\<lambda>c. c \<le> 0xFF) markup"
  have "base64_decode (base64_encode (map unat markup)) = Some (map of_nat (map unat markup))"
    using latin1 by (intro base64_roundtrip latin1_bytes)
  moreover have "map of_nat (map unat markup) = markup"
    by (induction markup) simp_all
  ultimately show "createImage (Str markup) w =
        (Inr \<lparr>image_ident = next_ident w,
              src = js ''data:image/svg+xml;base64,'' @ base64_encode (map unat markup)\<rparr>,
         w\<lparr>next_ident := Suc (next_ident w),
           trace := trace w @
             [ImageCreated (next_ident w),
              SourceAssigned (next_ident w)
                (js ''data:image/svg+xml;base64,'' @ base64_encode (map unat markup))]\<rparr>)
      \<and> base64_decode (base64_encode (map unat markup)) = Some markup"
    using btoa_latin1 [OF latin1] by (simp add: createImage_def imageSourceBase_def Let_def)
next
  assume "\<not> list_all (\<lambda>c. c \<le> 0xFF) markup"
  then show "createImage (Str markup) w =
        (Inl InvalidCharacterError,
         w\<lparr>next_ident := Suc (next_ident w), trace := trace w @ [ImageCreated (next_ident w)]\<rparr>)"
    using btoa_not_latin1 [of markup] by (simp add: createImage_def Let_def)
qed

text \<open>The markup \<open><svg></svg>\<close>.\<close>

theorem createImage_roundtrip_witness:
  "list_all (\<lambda>c. c \<le> 0xFF) (js ''<svg></svg>'')
   \<and> createImage (Str (js ''<svg></svg>'')) empty_world =
      (Inr \<lparr>image_ident = 0, src = js ''data:image/svg+xml;base64,PHN2Zz48L3N2Zz4=''\<rparr>,
       \<lparr>next_ident = 1, body = [],
        trace = [ImageCreated 0, SourceAssigned 0 (js ''data:image/svg+xml;base64,PHN2Zz48L3N2Zz4='')]\<rparr>)
   \<and> base64_decode (js ''PHN2Zz48L3N2Zz4='') = Some (js ''<svg></svg>'')"
  using createImage_roundtrip [of "js ''<svg></svg>''" empty_world]
  by (simp add: js_def empty_world_def base64_char_def base64_table_def)

text \<open>
  Claim C4 as stated fails for markup outside Latin-1, such as a label with a euro sign:
  the encoder throws \<open>InvalidCharacterError\<close>.
\<close>

theorem createImage_non_latin1_counterexample:
  "createImage (Str (js ''<svg><text>'' @ [0x20AC] @ js ''</text></svg>'')) empty_world =
     (Inl InvalidCharacterError, \<lparr>next_ident = 1, body = [], trace = [ImageCreated 0]\<rparr>)"
  by (simp add: createImage_def btoa_def js_def empty_world_def)

section \<open>The title overlay without a title\<close>

text \<open>
  Claim C5. When the title or \<open>svgWidth\<close> is absent, empty or zero, \<open>prependTitle\<close> returns
  the markup as it is, and the document and the record of effects are untouched: nothing
  was measured and nothing inserted.
\<close>

theorem prependTitle_identity:
  "\<not> truthy title \<or> \<not> truthy_number svgWidth \<Longrightarrow>
   prependTitle env html title svgWidth w = (Inr html, w)"
  by (simp add: prependTitle_def)

text \<open>An absent title, and a width of zero.\<close>

theorem prependTitle_identity_witness:
  "\<not> truthy Undefined
   \<and> prependTitle (example_env (js ''Chrome'')) (js ''<svg><g></g></svg>'') Undefined (Num 400)
       empty_world = (Inr (js ''<svg><g></g></svg>''), empty_world)
   \<and> prependTitle (example_env (js ''Chrome'')) (js ''<svg><g></g></svg>'') (Str (js ''Revenue'')) (Num 0)
       empty_world = (Inr (js ''<svg><g></g></svg>''), empty_world)"
  using prependTitle_identity [of Undefined "Num 400" "example_env (js ''Chrome'')"
      "js ''<svg><g></g></svg>''" empty_world]
    prependTitle_identity [of "Str (js ''Revenue'')" "Num 0" "example_env (js ''Chrome'')"
      "js ''<svg><g></g></svg>''" empty_world]
  by simp

section \<open>The background\<close>

text \<open>
  Claim C6, amended. For markup that begins with an opening tag \<open><svg ...>\<close> (no \<open>>\<close>
  inside the tag), \<open>addBackground\<close> puts the style rule of the configured background right
  after that tag and leaves the rest as it is. The rule lies within the first 200
  characters of the result when the opening tag has at most 163 characters, that is when
  at most 158 characters stand between \<open><svg\<close> and \<open>>\<close>.
\<close>

theorem addBackground_after_opening_tag:
  assumes "html = js ''<svg'' @ attributes @ js ''>'' @ rest" and "62 \<notin> set attributes"
  shows "addBackground html = js ''<svg'' @ attributes @ js ''>'' @ styleBackgroundString @ rest
    \<and> (length attributes \<le> 158 \<longrightarrow> sublist styleBackgroundString (take 200 (addBackground html)))"
proof -
  have "62 \<notin> set (js ''<svg'' @ attributes)"
    using assms(2) by (simp add: js_def)
  then have "addBackground ((js ''<svg'' @ attributes) @ js ''>'' @ rest)
      = (js ''<svg'' @ attributes) @ js ''>'' @ styleBackgroundString @ rest"
    by (rule addBackground_at_first)
  then have result:
    "addBackground html = js ''<svg'' @ attributes @ js ''>'' @ styleBackgroundString @ rest"
    by (simp add: assms(1))
  have "sublist styleBackgroundString (take 200 (addBackground html))"
    if short: "length attributes \<le> 158"
  proof -
    have "length (js ''<svg'' @ attributes @ js ''>'' @ styleBackgroundString) \<le> 200"
      using short by (simp add: js_def styleBackgroundString_def chartBackground_def)
    then have "take 200 (addBackground html)
        = (js ''<svg'' @ attributes @ js ''>'') @ styleBackgroundString
          @ take (200 - length (js ''<svg'' @ attributes @ js ''>'' @ styleBackgroundString)) rest"
      unfolding result by (simp add: add.assoc)
    then show ?thesis
      unfolding sublist_def by blast
  qed
  with result show ?thesis by blast
qed

text \<open>A short opening tag.\<close>

theorem addBackground_after_opening_tag_witness:
  \<open>62 \<notin> set (js '' width="400"'')
   \<and> addBackground (js ''<svg width="400"><g></g></svg>'') =
       js ''<svg width="400"><style>svg{background:white;}</style><g></g></svg>''
   \<and> sublist styleBackgroundString (take 200 (addBackground (js ''<svg width="400"><g></g></svg>'')))\<close>
  using addBackground_after_opening_tag [of \<open>js ''<svg width="400"><g></g></svg>''\<close>
      \<open>js '' width="400"''\<close> "js ''<g></g></svg>''"]
  by (auto simp: js_def styleBackgroundString_def chartBackground_def)

text \<open>
  Claim C6 as stated fails for an opening tag of more than 163 characters, as the
  serializer writes it when it puts the computed styles inline: the first 200 characters of
  the result then hold no style rule.
\<close>

theorem addBackground_first_200_counterexample:
  \<open>\<not> sublist styleBackgroundString
       (take 200 (addBackground (js ''<svg class="britechart bar-chart" width="400" height="200" style="font-family: 'Heebo', sans-serif; font-size: 12px; fill: rgb(0, 0, 0); stroke: none; stroke-width: 1px; overflow: hidden; display: block;" version="1.1" xmlns="http://www.w3.org/2000/svg"><g></g></svg>'')))\<close>
proof -
  define opening_tag where \<open>opening_tag = js ''<svg class="britechart bar-chart" width="400" height="200" style="font-family: 'Heebo', sans-serif; font-size: 12px; fill: rgb(0, 0, 0); stroke: none; stroke-width: 1px; overflow: hidden; display: block;" version="1.1" xmlns="http://www.w3.org/2000/svg"''\<close>
  have split: \<open>js ''<svg class="britechart bar-chart" width="400" height="200" style="font-family: 'Heebo', sans-serif; font-size: 12px; fill: rgb(0, 0, 0); stroke: none; stroke-width: 1px; overflow: hidden; display: block;" version="1.1" xmlns="http://www.w3.org/2000/svg"><g></g></svg>''
      = opening_tag @ js ''>'' @ js ''<g></g></svg>''\<close>
    by (simp add: opening_tag_def js_def)
  have no_close: "62 \<notin> set opening_tag"
    by (simp add: opening_tag_def js_def)
  have long: "200 \<le> length opening_tag"
    by (simp add: opening_tag_def js_def)
  have "addBackground (opening_tag @ js ''>'' @ js ''<g></g></svg>'')
      = opening_tag @ js ''>'' @ styleBackgroundString @ js ''<g></g></svg>''"
    using no_close by (rule addBackground_at_first)
  then have "take 200 (addBackground (opening_tag @ js ''>'' @ js ''<g></g></svg>'')) = take 200 opening_tag"
    using long by simp
  moreover have "62 \<notin> set (take 200 opening_tag)"
    using no_close by (meson in_set_takeD)
  moreover have "62 \<in> set styleBackgroundString"
    by (simp add: styleBackgroundString_def js_def)
  ultimately have "\<not> sublist styleBackgroundString
      (take 200 (addBackground (opening_tag @ js ''>'' @ js ''<g></g></svg>'')))"
    using set_mono_sublist by fastforce
  then show ?thesis
    unfolding split .
qed

section \<open>Markup without the anchor\<close>

text \<open>
  Claim C7, amended. When \<open><g\<close> does not occur in the markup, \<open>prependTitle\<close> with a title
  and a width returns the markup as it is, after the width was measured: the \<open>text\<close>
  element was created, appended to the body and removed, and the title is left out without
  a sign. When \<open>>\<close> does not occur in the markup, \<open>addBackground\<close> returns the markup as it
  is. Nothing is corrupted; the insertion just does not happen.
\<close>

theorem missing_anchor_leaves_markup:
  "(\<not> sublist (js ''<g'') html \<and> truthy title \<and> truthy_number svgWidth \<longrightarrow>
      prependTitle env html title svgWidth w = (Inr html, snd (getTitleWidth env title w))
      \<and> (wf_world w \<longrightarrow>
           prependTitle env html title svgWidth w =
             (Inr html,
              w\<lparr>next_ident := Suc (Suc (next_ident w)),
                trace := trace w @
                  [ElementCreated (js ''div'') (next_ident w),
                   ElementCreated (js ''text'') (Suc (next_ident w)),
                   ChildAppended (Suc (next_ident w)),
                   ChildRemoved (Suc (next_ident w))]\<rparr>)))
   \<and> (62 \<notin> set html \<longrightarrow> addBackground html = html)"
proof -
  have measured: "prependTitle env html title svgWidth w = (Inr html, snd (getTitleWidth env title w))"
    if absent: "\<not> sublist (js ''<g'') html" and title: "truthy title" and width: "truthy_number svgWidth"
  proof -
    obtain titleWidth w' where "getTitleWidth env title w = (Inr titleWidth, w')"
      using getTitleWidth_returns by blast
    moreover have "search (literal (js ''<g'')) html = None"
      using absent by (intro search_literal_None) (simp_all add: js_def)
    ultimately show ?thesis
      using title width by (simp add: prependTitle_def replace_None)
  qed
  have "addBackground html = html" if "62 \<notin> set html"
  proof -
    have "search (literal (js ''>'')) html = None"
      using that by (intro search_literal_None) (simp_all add: js_def sublist_single)
    then show ?thesis
      by (simp add: addBackground_def replace_None)
  qed
  then show ?thesis
    using measured getTitleWidth_run [of w env title] by auto
qed

text \<open>Markup without a group, and text without a tag.\<close>

theorem missing_anchor_leaves_markup_witness:
  "\<not> sublist (js ''<g'') (js ''<svg><rect/></svg>'') \<and> truthy (Str (js ''Revenue''))
   \<and> truthy_number (Num 400) \<and> wf_world example_world
   \<and> prependTitle (example_env (js ''Chrome'')) (js ''<svg><rect/></svg>'')
         (Str (js ''Revenue'')) (Num 400) example_world =
       (Inr (js ''<svg><rect/></svg>''),
        \<lparr>next_ident = 3,
         body = [\<lparr>ident = 0, tag = js ''div'', attrs = [(js ''class'', js ''chart'')], content = []\<rparr>],
         trace = [ElementCreated (js ''div'') 1, ElementCreated (js ''text'') 2,
                  ChildAppended 2, ChildRemoved 2]\<rparr>)
   \<and> 62 \<notin> set (js ''no tag at all'')
   \<and> addBackground (js ''no tag at all'') = js ''no tag at all''"
proof -
  have wf: "wf_world example_world"
    by (simp add: wf_world_def example_world_def)
  have absent: "\<not> sublist (js ''<g'') (js ''<svg><rect/></svg>'')"
    by (simp add: js_def sublist_Cons_right)
  have plain: "62 \<notin> set (js ''no tag at all'')"
    by (simp add: js_def)
  have title: "truthy (Str (js ''Revenue''))"
    by (simp add: js_def)
  have width: "truthy_number (Num 400)"
    by simp
  have run: "prependTitle (example_env (js ''Chrome'')) (js ''<svg><rect/></svg>'')
         (Str (js ''Revenue'')) (Num 400) example_world =
       (Inr (js ''<svg><rect/></svg>''),
        example_world\<lparr>next_ident := Suc (Suc (next_ident example_world)),
          trace := trace example_world @
            [ElementCreated (js ''div'') (next_ident example_world),
             ElementCreated (js ''text'') (Suc (next_ident example_world)),
             ChildAppended (Suc (next_ident example_world)),
             ChildRemoved (Suc (next_ident example_world))]\<rparr>)"
    using missing_anchor_leaves_markup [of "js ''<svg><rect/></svg>''" "Str (js ''Revenue'')" "Num 400"
        "example_env (js ''Chrome'')" example_world] wf absent title width
    by blast
  have after: "example_world\<lparr>next_ident := Suc (Suc (next_ident example_world)),
          trace := trace example_world @
            [ElementCreated (js ''div'') (next_ident example_world),
             ElementCreated (js ''text'') (Suc (next_ident example_world)),
             ChildAppended (Suc (next_ident example_world)),
             ChildRemoved (Suc (next_ident example_world))]\<rparr> =
        \<lparr>next_ident = 3,
         body = [\<lparr>ident = 0, tag = js ''div'', attrs = [(js ''class'', js ''chart'')], content = []\<rparr>],
         trace = [ElementCreated (js ''div'') 1, ElementCreated (js ''text'') 2,
                  ChildAppended 2, ChildRemoved 2]\<rparr>"
    by (simp add: example_world_def)
  have background: "addBackground (js ''no tag at all'') = js ''no tag at all''"
    using missing_anchor_leaves_markup [of "js ''no tag at all''" Undefined NaN
        "example_env (js ''Chrome'')" example_world] plain
    by simp
  show ?thesis
    using wf absent plain title background run [unfolded after] by simp
qed

text \<open>
  Claim C7 as stated fails: for well-formed markup without a group the result of
  \<open>prependTitle\<close> is that same well-formed markup, and \<open>addBackground\<close> returns a text
  without \<open>>\<close> as it was.
\<close>

theorem missing_anchor_counterexample:
  "prependTitle (example_env (js ''Chrome'')) (js ''<svg><rect/></svg>'')
         (Str (js ''Revenue'')) (Num 400) example_world =
       (Inr (js ''<svg><rect/></svg>''),
        \<lparr>next_ident = 3,
         body = [\<lparr>ident = 0, tag = js ''div'', attrs = [(js ''class'', js ''chart'')], content = []\<rparr>],
         trace = [ElementCreated (js ''div'') 1, ElementCreated (js ''text'') 2,
                  ChildAppended 2, ChildRemoved 2]\<rparr>)
   \<and> addBackground (js ''Revenue by region'') = js ''Revenue by region''"
  by (simp add: prependTitle_def getTitleWidth_def createElement_def set_innerHTML_def
      appendChild_def getElementById_def remove_def attached_def detach_def title_node_def
      example_env_def example_world_def addBackground_def replace_def literal_def js_def)

section \<open>The measurement of the title\<close>

text \<open>
  Claim C8. In a document whose elements were all created before, \<open>getTitleWidth\<close> always
  returns a width: it creates a \<open>div\<close> and the \<open>text\<close> element, appends the element to the
  body, reads the width of the first element with the id \<open>britechart_title\<close> (which exists,
  since the element was just appended, so the read cannot fail) and removes the element
  again. The children of the body are the same after the call as before.
\<close>

theorem getTitleWidth_restores_document:
  assumes "wf_world w"
  shows "getTitleWidth env title w =
    (Inr (case getElementById (js ''britechart_title'') w of
            Some el \<Rightarrow> offsetWidth env el
          | None \<Rightarrow> offsetWidth env (title_node (Suc (next_ident w)) title)),
     w\<lparr>next_ident := Suc (Suc (next_ident w)),
       trace := trace w @
         [ElementCreated (js ''div'') (next_ident w),
          ElementCreated (js ''text'') (Suc (next_ident w)),
          ChildAppended (Suc (next_ident w)),
          ChildRemoved (Suc (next_ident w))]\<rparr>)
    \<and> body (snd (getTitleWidth env title w)) = body w"
  using getTitleWidth_run [OF assms, of env title] by simp

text \<open>A document with one element in its body.\<close>

theorem getTitleWidth_restores_document_witness:
  "wf_world example_world
   \<and> getTitleWidth (example_env (js ''Chrome'')) (Str (js ''Revenue'')) example_world =
      (Inr 80,
       \<lparr>next_ident = 3,
        body = [\<lparr>ident = 0, tag = js ''div'', attrs = [(js ''class'', js ''chart'')], content = []\<rparr>],
        trace = [ElementCreated (js ''div'') 1, ElementCreated (js ''text'') 2,
                 ChildAppended 2, ChildRemoved 2]\<rparr>)
   \<and> body (snd (getTitleWidth (example_env (js ''Chrome'')) (Str (js ''Revenue'')) example_world))
       = body example_world"
proof -
  have wf: "wf_world example_world"
    by (simp add: wf_world_def example_world_def)
  show ?thesis
    using wf getTitleWidth_restores_document [OF wf, of "example_env (js ''Chrome'')" "Str (js ''Revenue'')"]
    by (simp add: example_world_def example_env_def getElementById_def title_node_def js_def)
qed

section \<open>The download\<close>

text \<open>
  Claim C9. In a document whose elements were all created before, \<open>downloadCanvas\<close> creates
  one link, appends it to the body, clicks it and removes it, and throws nothing: the
  children of the body are the same after the call as before. The \<open>download\<close> attribute of
  the link is the filename (or \<open>britechart.png\<close> when it is \<open>undefined\<close>), and its \<open>href\<close> is the
  data URI of the canvas for the given type, \<open>image/png\<close> when none is given.
\<close>

theorem downloadCanvas_restores_document:
  assumes "wf_world w"
  shows "downloadCanvas env c filename extensionType w =
    (Inr (),
     w\<lparr>next_ident := Suc (next_ident w),
       trace := trace w @
         [ElementCreated (js ''a'') (next_ident w),
          ChildAppended (next_ident w),
          LinkClicked
            \<lparr>ident = next_ident w, tag = js ''a'',
             attrs = [(js ''href'', toDataURL env c
                         (case extensionType of Undefined \<Rightarrow> js ''image/png''
                          | _ \<Rightarrow> to_string extensionType)),
                      (js ''download'',
                         (case filename of Undefined \<Rightarrow> js ''britechart.png''
                          | _ \<Rightarrow> to_string filename))],
             content = []\<rparr>,
          ChildRemoved (next_ident w)]\<rparr>)
    \<and> body (snd (downloadCanvas env c filename extensionType w)) = body w"
  using downloadCanvas_run [OF assms, of env c filename extensionType]
  by (simp add: download_link_def default_parameter_def)

text \<open>A download named \<open>sales.png\<close>, with the default type.\<close>

theorem downloadCanvas_restores_document_witness:
  "wf_world example_world
   \<and> downloadCanvas (example_env (js ''Chrome''))
        \<lparr>canvas_ident = 7, canvas_width = 400, canvas_height = 200\<rparr>
        (Str (js ''sales.png'')) Undefined example_world =
      (Inr (),
       \<lparr>next_ident = 2,
        body = [\<lparr>ident = 0, tag = js ''div'', attrs = [(js ''class'', js ''chart'')], content = []\<rparr>],
        trace = [ElementCreated (js ''a'') 1, ChildAppended 1,
                 LinkClicked \<lparr>ident = 1, tag = js ''a'',
                   attrs = [(js ''href'', js ''data:image/png;base64,AAAA''),
                            (js ''download'', js ''sales.png'')],
                   content = []\<rparr>,
                 ChildRemoved 1]\<rparr>)"
proof -
  have wf: "wf_world example_world"
    by (simp add: wf_world_def example_world_def)
  show ?thesis
    using wf downloadCanvas_restores_document [OF wf, of "example_env (js ''Chrome'')"
        "\<lparr>canvas_ident = 7, canvas_width = 400, canvas_height = 200\<rparr>" "Str (js ''sales.png'')" Undefined]
    by (simp add: example_world_def example_env_def js_def)
qed

text \<open>
  Claim C10. \<open>handleImageLoad\<close> prevents the default of the event, draws the image on the
  canvas and downloads the canvas as \<open>image/png\<close>: under the name \<open>britechart.png\<close> when the
  filename is \<open>undefined\<close>, \<open>null\<close> or the empty string, and under the filename itself
  otherwise.
\<close>

theorem handleImageLoad_filename:
  assumes "wf_world w"
  shows "handleImageLoad env this c filename w =
    (Inr (),
     w\<lparr>next_ident := Suc (next_ident w),
       trace := trace w @
         [DefaultPrevented,
          ImageDrawn (image_ident this) (canvas_ident c),
          ElementCreated (js ''a'') (next_ident w),
          ChildAppended (next_ident w),
          LinkClicked
            \<lparr>ident = next_ident w, tag = js ''a'',
             attrs = [(js ''href'', toDataURL env c (js ''image/png'')),
                      (js ''download'',
                         (case filename of
                            Str name \<Rightarrow> if name = [] then js ''britechart.png'' else name
                          | _ \<Rightarrow> js ''britechart.png''))],
             content = []\<rparr>,
          ChildRemoved (next_ident w)]\<rparr>)"
proof -
  let ?w = "drawImageOnCanvas this c (w\<lparr>trace := trace w @ [DefaultPrevented]\<rparr>)"
  have "wf_world ?w"
    using assms by (simp add: wf_world_def drawImageOnCanvas_def)
  note download = downloadCanvas_run [OF this]
  show ?thesis
  proof (cases "truthy filename")
    case True
    then obtain name where "filename = Str name" "name \<noteq> []"
      by (cases filename) auto
    then show ?thesis
      using download [of env c "Str name" Undefined]
      by (simp add: handleImageLoad_def drawImageOnCanvas_def download_link_def default_parameter_def
          Let_def)
  next
    case False
    then have "(case filename of
          Str name \<Rightarrow> if name = [] then js ''britechart.png'' else name
        | _ \<Rightarrow> js ''britechart.png'') = js ''britechart.png''"
      by (cases filename) auto
    then show ?thesis
      using False download [of env c "Str defaultFilename" Undefined]
      by (simp add: handleImageLoad_def drawImageOnCanvas_def defaultFilename_def download_link_def
          default_parameter_def Let_def)
  qed
qed

text \<open>An absent filename, and the filename \<open>sales.png\<close>.\<close>

theorem handleImageLoad_filename_witness:
  "wf_world example_world
   \<and> handleImageLoad (example_env (js ''Chrome'')) \<lparr>image_ident = 5, src = js ''data:,''\<rparr>
        \<lparr>canvas_ident = 7, canvas_width = 400, canvas_height = 200\<rparr> Undefined example_world =
      (Inr (),
       \<lparr>next_ident = 2,
        body = [\<lparr>ident = 0, tag = js ''div'', attrs = [(js ''class'', js ''chart'')], content = []\<rparr>],
        trace = [DefaultPrevented, ImageDrawn 5 7, ElementCreated (js ''a'') 1, ChildAppended 1,
                 LinkClicked \<lparr>ident = 1, tag = js ''a'',
                   attrs = [(js ''href'', js ''data:image/png;base64,AAAA''),
                            (js ''download'', js ''britechart.png'')],
                   content = []\<rparr>,
                 ChildRemoved 1]\<rparr>)
   \<and> handleImageLoad (example_env (js ''Chrome'')) \<lparr>image_ident = 5, src = js ''data:,''\<rparr>
        \<lparr>canvas_ident = 7, canvas_width = 400, canvas_height = 200\<rparr> (Str (js ''sales.png''))
        example_world =
      (Inr (),
       \<lparr>next_ident = 2,
        body = [\<lparr>ident = 0, tag = js ''div'', attrs = [(js ''class'', js ''chart'')], content = []\<rparr>],
        trace = [DefaultPrevented, ImageDrawn 5 7, ElementCreated (js ''a'') 1, ChildAppended 1,
                 LinkClicked \<lparr>ident = 1, tag = js ''a'',
                   attrs = [(js ''href'', js ''data:image/png;base64,AAAA''),
                            (js ''download'', js ''sales.png'')],
                   content = []\<rparr>,
                 ChildRemoved 1]\<rparr>)"
proof -
  have wf: "wf_world example_world"
    by (simp add: wf_world_def example_world_def)
  show ?thesis
    using wf
      handleImageLoad_filename [OF wf, of "example_env (js ''Chrome'')" "\<lparr>image_ident = 5, src = js ''data:,''\<rparr>"
        "\<lparr>canvas_ident = 7, canvas_width = 400, canvas_height = 200\<rparr>" Undefined]
      handleImageLoad_filename [OF wf, of "example_env (js ''Chrome'')" "\<lparr>image_ident = 5, src = js ''data:,''\<rparr>"
        "\<lparr>canvas_ident = 7, canvas_width = 400, canvas_height = 200\<rparr>" "Str (js ''sales.png'')"]
    by (simp add: example_world_def example_env_def js_def)
qed

end
